theory Spec2Isabelle
  imports Main "HOL-Library.Product_Lexorder"
begin

section \<open>School enrolment and fee model (school/models.py)\<close>

text \<open>
  The development follows \<^verbatim>\<open>school/models.py\<close>: the four models \<^verbatim>\<open>ClassLevel\<close>,
  \<^verbatim>\<open>AcademicTerm\<close>, \<^verbatim>\<open>ClassTermFees\<close> and \<^verbatim>\<open>Learner\<close> become records, a database
  table is the list of its rows in insertion order, and every method that reads the
  clock takes the value of \<^verbatim>\<open>date.today()\<close> as an argument. A method that can raise
  returns a sum whose left side is the exception; a \<^verbatim>\<open>save\<close> returns the exception
  (if any), the object as the call leaves it and the table as the call leaves it.
  Where two models use one field name (\<^verbatim>\<open>id\<close>, \<^verbatim>\<open>name\<close>, \<^verbatim>\<open>class_level\<close>,
  \<^verbatim>\<open>year\<close>) the record field carries the model's name in front.
\<close>

subsection \<open>Exceptions\<close>

text \<open>\<^verbatim>\<open>ValidationError field message\<close> is Django's \<^verbatim>\<open>ValidationError({field: message})\<close>.\<close>

datatype error =
    ValidationError string string
  | TypeError
  | ValueError
  | AttributeError
  | RelatedObjectDoesNotExist
  | DoesNotExist
  | MultipleObjectsReturned
  | IntegrityError

subsection \<open>Python values: dates, strings, lists\<close>

text \<open>
  \<^verbatim>\<open>datetime.date\<close>: three integer attributes. Dates compare as the tuples
  \<^verbatim>\<open>(year, month, day)\<close>, and the difference of two dates is the difference of their
  proleptic Gregorian ordinals (\<^verbatim>\<open>toordinal\<close>), whose \<^verbatim>\<open>days\<close> the code reads.
  A date that Python can construct satisfies \<open>valid_date\<close>.
\<close>

record date =
  year :: int
  month :: int
  day :: int

definition date_lt :: "date \<Rightarrow> date \<Rightarrow> bool" where
  "date_lt a b = ((year a, month a, day a) < (year b, month b, day b))"

definition date_le :: "date \<Rightarrow> date \<Rightarrow> bool" where
  "date_le a b = ((year a, month a, day a) \<le> (year b, month b, day b))"

definition date_gt :: "date \<Rightarrow> date \<Rightarrow> bool" where
  "date_gt a b = date_lt b a"

definition is_leap :: "int \<Rightarrow> bool" where
  "is_leap y = (y mod 4 = 0 \<and> (y mod 400 = 0 \<or> y mod 100 \<noteq> 0))"

definition days_before_year :: "int \<Rightarrow> int" where
  "days_before_year y = (let y1 = y - 1 in y1 * 365 + y1 div 4 - y1 div 100 + y1 div 400)"

definition DAYS_IN_MONTH :: "int list" where
  "DAYS_IN_MONTH = [-1, 31, 28, 31, 30, 31, 30, 31, 31, 30, 31, 30, 31]"

definition DAYS_BEFORE_MONTH :: "int list" where
  "DAYS_BEFORE_MONTH = [-1, 0, 31, 59, 90, 120, 151, 181, 212, 243, 273, 304, 334]"

definition days_in_month :: "int \<Rightarrow> int \<Rightarrow> int" where
  "days_in_month y m = (if m = 2 \<and> is_leap y then 29 else DAYS_IN_MONTH ! nat m)"

definition days_before_month :: "int \<Rightarrow> int \<Rightarrow> int" where
  "days_before_month y m = DAYS_BEFORE_MONTH ! nat m + (if m > 2 \<and> is_leap y then 1 else 0)"

definition toordinal :: "date \<Rightarrow> int" where
  "toordinal d = days_before_year (year d) + days_before_month (year d) (month d) + day d"

definition valid_date :: "date \<Rightarrow> bool" where
  "valid_date d =
     (1 \<le> year d \<and> year d \<le> 9999 \<and> 1 \<le> month d \<and> month d \<le> 12 \<and>
      1 \<le> day d \<and> day d \<le> days_in_month (year d) (month d))"

text \<open>\<^verbatim>\<open>(a - b).days\<close> for two dates.\<close>

definition days_between :: "date \<Rightarrow> date \<Rightarrow> int" where
  "days_between a b = toordinal a - toordinal b"

text \<open>\<^verbatim>\<open>str(n)\<close> for an integer, \<^verbatim>\<open>f"{n:03d}"\<close> for a count, \<^verbatim>\<open>s.upper()\<close> and
  \<^verbatim>\<open>s.startswith(p)\<close> on ASCII strings.\<close>

definition digit_char :: "nat \<Rightarrow> char" where
  "digit_char n = char_of (48 + n)"

fun str_nat :: "nat \<Rightarrow> string" where
  "str_nat n = (if n < 10 then [digit_char n] else str_nat (n div 10) @ [digit_char (n mod 10)])"

declare str_nat.simps [simp del]

definition str :: "int \<Rightarrow> string" where
  "str i = (if i < 0 then CHR ''-'' # str_nat (nat (- i)) else str_nat (nat i))"

definition format_03d :: "nat \<Rightarrow> string" where
  "format_03d n = (let s = str_nat n in replicate (3 - length s) CHR ''0'' @ s)"

definition upper_char :: "char \<Rightarrow> char" where
  "upper_char c =
     (let n = (of_char c :: nat) in if 97 \<le> n \<and> n \<le> 122 then char_of (n - 32) else c)"

definition upper :: "string \<Rightarrow> string" where
  "upper s = map upper_char s"

definition startswith :: "string \<Rightarrow> string \<Rightarrow> bool" where
  "startswith s p = (take (length p) s = p)"

text \<open>\<^verbatim>\<open>xs.index(x)\<close>: the first position of \<open>x\<close>; \<open>None\<close> stands for the
  \<^verbatim>\<open>ValueError\<close> that Python raises when \<open>x\<close> is not in the list.\<close>

fun list_index :: "'a list \<Rightarrow> 'a \<Rightarrow> nat option" where
  "list_index [] x = None"
| "list_index (y # ys) x =
     (if y = x then Some 0 else (case list_index ys x of None \<Rightarrow> None | Some i \<Rightarrow> Some (Suc i)))"

subsection \<open>The framework's \<^verbatim>\<open>Model.save\<close>\<close>

text \<open>
  \<^verbatim>\<open>super().save()\<close> is Django's, not the repository's. Its contract as the models
  use it: a row that would share a \<^verbatim>\<open>unique\<close> value with another row is refused
  with \<^verbatim>\<open>IntegrityError\<close> and nothing is written; an object whose primary key is
  present and stored is updated in place; any other object is inserted, after the
  fields that are filled at insertion (\<open>pre_insert\<close>, for \<^verbatim>\<open>auto_now_add\<close>) and, when
  the key is absent, after it has received a fresh key.
\<close>

definition next_id :: "('r \<Rightarrow> nat option) \<Rightarrow> 'r list \<Rightarrow> nat" where
  "next_id get_id db = Suc (fold max (map (\<lambda>r. case get_id r of None \<Rightarrow> 0 | Some k \<Rightarrow> k) db) 0)"

definition other_row :: "('r \<Rightarrow> nat option) \<Rightarrow> 'r \<Rightarrow> 'r \<Rightarrow> bool" where
  "other_row get_id self r = (case get_id self of None \<Rightarrow> True | Some k \<Rightarrow> get_id r \<noteq> Some k)"

definition Model_save ::
  "('r \<Rightarrow> nat option) \<Rightarrow> (nat \<Rightarrow> 'r \<Rightarrow> 'r) \<Rightarrow> ('r \<Rightarrow> 'r \<Rightarrow> bool) \<Rightarrow> ('r \<Rightarrow> 'r) \<Rightarrow>
     'r \<Rightarrow> 'r list \<Rightarrow> error option \<times> 'r \<times> 'r list" where
  "Model_save get_id set_id same_unique pre_insert self db =
     (if list_ex (\<lambda>r. other_row get_id self r \<and> same_unique r self) db
      then (Some IntegrityError, self, db)
      else (case get_id self of
              Some k \<Rightarrow>
                (if list_ex (\<lambda>r. get_id r = Some k) db
                 then (None, self, map (\<lambda>r. if get_id r = Some k then self else r) db)
                 else (let self' = pre_insert self in (None, self', db @ [self'])))
            | None \<Rightarrow>
                (let self' = set_id (next_id get_id db) (pre_insert self)
                 in (None, self', db @ [self']))))"

subsection \<open>ClassLevel\<close>

record ClassLevel =
  ClassLevel_id :: "nat option"
  ClassLevel_name :: string
  description :: string
  class_order :: nat
  age_criteria :: "nat option"
  admission_fee :: int
  assessment_fee :: int

text \<open>The decimal amounts (\<^verbatim>\<open>DecimalField(max_digits=10, decimal_places=2)\<close>) are
  counted in hundredths; \<^verbatim>\<open>Decimal\<close> addition is exact at this size.\<close>

definition MODEL_CHOICES :: "(string \<times> string) list" where
  "MODEL_CHOICES =
     [(''beginner'', ''Beginner Class''),
      (''pp1'', ''PP1''),
      (''pp2'', ''PP2''),
      (''grade1'', ''Grade 1''),
      (''grade2'', ''Grade 2'')]"

definition ClassLevel_Model_save ::
  "ClassLevel \<Rightarrow> ClassLevel list \<Rightarrow> error option \<times> ClassLevel \<times> ClassLevel list" where
  "ClassLevel_Model_save =
     Model_save ClassLevel_id (\<lambda>k r. r\<lparr>ClassLevel_id := Some k\<rparr>)
       (\<lambda>r s. ClassLevel_name r = ClassLevel_name s) (\<lambda>r. r)"

definition ClassLevel_save ::
  "ClassLevel \<Rightarrow> ClassLevel list \<Rightarrow> error option \<times> ClassLevel \<times> ClassLevel list" where
  "ClassLevel_save self db =
     (let choice_values = map fst MODEL_CHOICES;
          self' = (case list_index choice_values (ClassLevel_name self) of
                     Some i \<Rightarrow> self\<lparr>class_order := i + 1\<rparr>
                   | None \<Rightarrow> self\<lparr>class_order := 999\<rparr>)
      in ClassLevel_Model_save self' db)"

subsection \<open>AcademicTerm\<close>

record AcademicTerm =
  AcademicTerm_id :: "nat option"
  AcademicTerm_name :: string
  start_date :: "date option"
  end_date :: "date option"
  AcademicTerm_year :: nat

definition AcademicTerm_clean :: "AcademicTerm \<Rightarrow> error + unit" where
  "AcademicTerm_clean self =
     (case (start_date self, end_date self) of
        (Some s, Some e) \<Rightarrow>
          (if date_le e s
           then Inl (ValidationError ''end_date'' ''End date must be after the start date.'')
           else (let duration = days_between e s in
                 if duration < 60
                 then Inl (ValidationError ''end_date''
                        ''Term duration seems too short (less than 60 days). Please verify dates.'')
                 else if duration > 120
                 then Inl (ValidationError ''end_date''
                        ''Term duration seems too long (more than 120 days). Please verify dates.'')
                 else Inr ()))
      | _ \<Rightarrow> Inr ())"

definition AcademicTerm_Model_save ::
  "AcademicTerm \<Rightarrow> AcademicTerm list \<Rightarrow> error option \<times> AcademicTerm \<times> AcademicTerm list" where
  "AcademicTerm_Model_save =
     Model_save AcademicTerm_id (\<lambda>k r. r\<lparr>AcademicTerm_id := Some k\<rparr>)
       (\<lambda>r s. AcademicTerm_name r = AcademicTerm_name s) (\<lambda>r. r)"

definition AcademicTerm_save ::
  "AcademicTerm \<Rightarrow> AcademicTerm list \<Rightarrow> error option \<times> AcademicTerm \<times> AcademicTerm list" where
  "AcademicTerm_save self db =
     (case AcademicTerm_clean self of
        Inl e \<Rightarrow> (Some e, self, db)
      | Inr _ \<Rightarrow> AcademicTerm_Model_save self db)"

text \<open>Comparing a date with \<^verbatim>\<open>None\<close> raises \<^verbatim>\<open>TypeError\<close>.\<close>

definition get_term_status :: "AcademicTerm \<Rightarrow> date \<Rightarrow> error + string" where
  "get_term_status self today =
     (case start_date self of
        None \<Rightarrow> Inl TypeError
      | Some s \<Rightarrow>
          (if date_lt today s then Inr ''upcoming''
           else (case end_date self of
                   None \<Rightarrow> Inl TypeError
                 | Some e \<Rightarrow> (if date_gt today e then Inr ''ended'' else Inr ''active''))))"

definition days_remaining :: "AcademicTerm \<Rightarrow> date \<Rightarrow> error + int option" where
  "days_remaining self today =
     (case end_date self of
        None \<Rightarrow> Inl TypeError
      | Some e \<Rightarrow> (if date_gt today e then Inr None else Inr (Some (days_between e today))))"

subsection \<open>ClassTermFees\<close>

record ClassTermFees =
  ClassTermFees_id :: "nat option"
  ClassTermFees_class_level :: nat
  academic_term :: nat
  tuition_fee :: int
  meal_fee :: int
  activity_fee :: int

text \<open>A row refers to its class level and its term by their primary keys.
  \<open>unique_together\<close> is the constraint of the same name in \<^verbatim>\<open>Meta\<close>.\<close>

definition unique_together :: "ClassTermFees list \<Rightarrow> bool" where
  "unique_together db = distinct (map (\<lambda>r. (ClassTermFees_class_level r, academic_term r)) db)"

definition get_total_fees :: "ClassTermFees \<Rightarrow> int" where
  "get_total_fees self = tuition_fee self + meal_fee self + activity_fee self"

text \<open>\<^verbatim>\<open>objects.get(...)\<close>: the one row that matches, \<^verbatim>\<open>DoesNotExist\<close> when none does,
  \<^verbatim>\<open>MultipleObjectsReturned\<close> when several do.\<close>

definition objects_get :: "('r \<Rightarrow> bool) \<Rightarrow> 'r list \<Rightarrow> error + 'r" where
  "objects_get p db =
     (case filter p db of
        [] \<Rightarrow> Inl DoesNotExist
      | [r] \<Rightarrow> Inr r
      | _ \<Rightarrow> Inl MultipleObjectsReturned)"

subsection \<open>Learner\<close>

record Learner =
  Learner_id :: "nat option"
  Learner_class_level :: "ClassLevel option"
  first_name :: string
  last_name :: string
  middle_name :: string
  date_of_birth :: date
  gender :: string
  admission_date :: "date option"
  student_id :: string
  is_active :: bool

text \<open>\<^verbatim>\<open>class_level\<close> is a foreign key that cannot be null: \<open>None\<close> is a learner
  whose class level has not been set, and reading \<^verbatim>\<open>self.class_level\<close> then raises
  \<^verbatim>\<open>RelatedObjectDoesNotExist\<close>. \<^verbatim>\<open>admission_date\<close> is declared
  \<^verbatim>\<open>auto_now_add=True\<close>: the framework fills it with today's date when the row is
  inserted, inside \<^verbatim>\<open>super().save()\<close>. Until then the attribute of a new object exists
  and holds \<^verbatim>\<open>None\<close>.\<close>

definition Learner_Model_save ::
  "date \<Rightarrow> Learner \<Rightarrow> Learner list \<Rightarrow> error option \<times> Learner \<times> Learner list" where
  "Learner_Model_save today =
     Model_save Learner_id (\<lambda>k r. r\<lparr>Learner_id := Some k\<rparr>)
       (\<lambda>r s. student_id r = student_id s)
       (\<lambda>r. r\<lparr>admission_date := Some today\<rparr>)"

text \<open>\<^verbatim>\<open>hasattr(self, "admission_date")\<close>: every instance of the model carries the
  attribute of a declared field, holding \<^verbatim>\<open>None\<close> when no value has been given, so
  the test is true of every learner.\<close>

definition hasattr_admission_date :: "Learner \<Rightarrow> bool" where
  "hasattr_admission_date self = True"

text \<open>The \<^verbatim>\<open>year\<close> expression of \<^verbatim>\<open>Learner.save\<close>; \<^verbatim>\<open>None.year\<close> raises
  \<^verbatim>\<open>AttributeError\<close>.\<close>

definition student_id_year :: "date \<Rightarrow> Learner \<Rightarrow> error + string" where
  "student_id_year today self =
     (if hasattr_admission_date self
      then (case admission_date self of
              None \<Rightarrow> Inl AttributeError
            | Some d \<Rightarrow> Inr (drop 2 (str (year d))))
      else Inr (drop 2 (str (year today))))"

text \<open>The \<^verbatim>\<open>class_code\<close> expression: the condition reads \<^verbatim>\<open>self.class_level\<close>, which
  raises when no class level is set; a class level that is read is a model instance,
  and a model instance is true as a condition.\<close>

definition ClassLevel_truthy :: "ClassLevel \<Rightarrow> bool" where
  "ClassLevel_truthy c = True"

definition student_id_class_code :: "Learner \<Rightarrow> error + string" where
  "student_id_class_code self =
     (case Learner_class_level self of
        None \<Rightarrow> Inl RelatedObjectDoesNotExist
      | Some c \<Rightarrow>
          (if ClassLevel_truthy c then Inr (upper (take 3 (ClassLevel_name c))) else Inr ''STU''))"

definition Learner_save ::
  "date \<Rightarrow> Learner \<Rightarrow> Learner list \<Rightarrow> error option \<times> Learner \<times> Learner list" where
  "Learner_save today self db =
     (if student_id self = []
      then (case student_id_year today self of
              Inl e \<Rightarrow> (Some e, self, db)
            | Inr y \<Rightarrow>
                (case student_id_class_code self of
                   Inl e \<Rightarrow> (Some e, self, db)
                 | Inr class_code \<Rightarrow>
                     (let existing_count =
                            length (filter (\<lambda>r. startswith (student_id r) (y @ class_code)) db);
                          self' = self\<lparr>student_id := y @ class_code @ format_03d (existing_count + 1)\<rparr>
                      in Learner_Model_save today self' db)))
      else Learner_Model_save today self db)"

text \<open>The chained comparison \<^verbatim>\<open>a <= b <= c\<close> is \<^verbatim>\<open>a <= b and b <= c\<close>: the second
  comparison is not evaluated when the first is false. Comparing with \<^verbatim>\<open>None\<close> raises
  \<^verbatim>\<open>TypeError\<close>.\<close>

definition is_admission_term :: "Learner \<Rightarrow> AcademicTerm \<Rightarrow> error + bool" where
  "is_admission_term self t =
     (case (start_date t, admission_date self) of
        (Some s, Some a) \<Rightarrow>
          (if date_le s a
           then (case end_date t of None \<Rightarrow> Inl TypeError | Some e \<Rightarrow> Inr (date_le a e))
           else Inr False)
      | _ \<Rightarrow> Inl TypeError)"

text \<open>The filter of \<^verbatim>\<open>ClassTermFees.objects.get(class_level=..., academic_term=...)\<close>
  compares primary keys.\<close>

definition fee_row_matches :: "nat \<Rightarrow> nat \<Rightarrow> ClassTermFees \<Rightarrow> bool" where
  "fee_row_matches class_level_id academic_term_id r =
     (ClassTermFees_class_level r = class_level_id \<and> academic_term r = academic_term_id)"

text \<open>The arguments of the lookup are evaluated first: reading \<^verbatim>\<open>self.class_level\<close>
  raises \<^verbatim>\<open>RelatedObjectDoesNotExist\<close> when none is set. The lookup refuses an object
  that has not been saved (no primary key) with \<^verbatim>\<open>ValueError\<close>, the class level before
  the term. Of all these only \<^verbatim>\<open>ClassTermFees.DoesNotExist\<close> is caught.\<close>

definition get_term_fees :: "ClassTermFees list \<Rightarrow> Learner \<Rightarrow> AcademicTerm \<Rightarrow> error + int option" where
  "get_term_fees db self t =
     (case (case Learner_class_level self of
              None \<Rightarrow> Inl RelatedObjectDoesNotExist
            | Some c \<Rightarrow>
                (case ClassLevel_id c of
                   None \<Rightarrow> Inl ValueError
                 | Some class_level_id \<Rightarrow>
                     (case AcademicTerm_id t of
                        None \<Rightarrow> Inl ValueError
                      | Some academic_term_id \<Rightarrow>
                          (case objects_get (fee_row_matches class_level_id academic_term_id) db of
                             Inl e \<Rightarrow> Inl e
                           | Inr fees \<Rightarrow>
                               (let term_fees = get_total_fees fees in
                                case is_admission_term self t of
                                  Inl e \<Rightarrow> Inl e
                                | Inr True \<Rightarrow>
                                    Inr (Some (term_fees + (admission_fee c + assessment_fee c)))
                                | Inr False \<Rightarrow> Inr (Some term_fees)))))) of
        Inl DoesNotExist \<Rightarrow> Inr None
      | r \<Rightarrow> r)"

text \<open>\<^verbatim>\<open>_get_age_as_of_date\<close>, without the leading underscore; the two pairs are
  compared as Python compares tuples, in the lexicographic order.\<close>

definition get_age_as_of_date :: "Learner \<Rightarrow> date \<Rightarrow> int" where
  "get_age_as_of_date self as_of_date =
     (let age = year as_of_date - year (date_of_birth self) in
      if (month as_of_date, day as_of_date) < (month (date_of_birth self), day (date_of_birth self))
      then age - 1
      else age)"

subsection \<open>Decimal numerals\<close>



subsection \<open>Concrete values for the examples\<close>

text \<open>\<^verbatim>\<open>date(y, m, d)\<close>, and a term that has not been saved yet with the given first and
  last day.\<close>

definition mkdate :: "int \<Rightarrow> int \<Rightarrow> int \<Rightarrow> date" where
  "mkdate y m d = \<lparr>year = y, month = m, day = d\<rparr>"

definition mkterm :: "date \<Rightarrow> date \<Rightarrow> AcademicTerm" where
  "mkterm s e =
     \<lparr>AcademicTerm_id = None, AcademicTerm_name = ''term1'',
      start_date = Some s, end_date = Some e, AcademicTerm_year = 2025\<rparr>"

text \<open>A class level that has not been saved yet.\<close>

definition mklevel :: "string \<Rightarrow> ClassLevel" where
  "mklevel n =
     \<lparr>ClassLevel_id = None, ClassLevel_name = n, description = [], class_order = 0,
      age_criteria = None, admission_fee = 500000, assessment_fee = 100000\<rparr>"

text \<open>A learner of the given class level, admission date and identifier who has not
  been saved yet; the class level PP1 as stored; a fee row; two terms of 2025 as stored
  and a fee table for them.\<close>

definition mklearner :: "ClassLevel option \<Rightarrow> date option \<Rightarrow> string \<Rightarrow> Learner" where
  "mklearner c a sid =
     \<lparr>Learner_id = None, Learner_class_level = c, first_name = ''Amina'', last_name = ''Otieno'',
      middle_name = [], date_of_birth = mkdate 2020 6 15, gender = ''female'',
      admission_date = a, student_id = sid, is_active = True\<rparr>"

definition pp1_level :: ClassLevel where
  "pp1_level = (mklevel ''pp1'')\<lparr>ClassLevel_id := Some 2, class_order := 2\<rparr>"

definition mkfees :: "nat \<Rightarrow> nat \<Rightarrow> int \<Rightarrow> int \<Rightarrow> int \<Rightarrow> ClassTermFees" where
  "mkfees c t tuition meal activity =
     \<lparr>ClassTermFees_id = None, ClassTermFees_class_level = c, academic_term = t,
      tuition_fee = tuition, meal_fee = meal, activity_fee = activity\<rparr>"

definition term1_2025 :: AcademicTerm where
  "term1_2025 = (mkterm (mkdate 2025 1 6) (mkdate 2025 4 4))\<lparr>AcademicTerm_id := Some 1\<rparr>"

definition term2_2025 :: AcademicTerm where
  "term2_2025 = (mkterm (mkdate 2025 5 5) (mkdate 2025 8 1))\<lparr>AcademicTerm_id := Some 2, AcademicTerm_name := ''term2''\<rparr>"

definition fees_2025 :: "ClassTermFees list" where
  "fees_2025 = [mkfees 2 1 1500000 300000 0, mkfees 3 1 1600000 300000 0, mkfees 2 2 1500000 0 0]"

section \<open>Properties\<close>

subsection \<open>The calendar: ordinals grow with dates\<close>

lemma date_gt_not_le: "date_gt e s \<Longrightarrow> \<not> date_le e s"
  by (auto simp: date_gt_def date_lt_def date_le_def)

lemma date_le_trans_gt: "date_lt t s \<Longrightarrow> date_le s e \<Longrightarrow> \<not> date_gt t e"
  unfolding date_gt_def date_lt_def date_le_def by (meson less_le_trans not_less_iff_gr_or_eq)

lemma date_le_iff:
  "date_le a b \<longleftrightarrow>
     year a < year b \<or> (year a = year b \<and> (month a < month b \<or> (month a = month b \<and> day a \<le> day b)))"
  by (auto simp: date_le_def)

lemma date_lt_iff:
  "date_lt a b \<longleftrightarrow>
     year a < year b \<or> (year a = year b \<and> (month a < month b \<or> (month a = month b \<and> day a < day b)))"
  by (auto simp: date_lt_def)

lemma month_cases:
  "1 \<le> m \<Longrightarrow> m \<le> 12 \<Longrightarrow>
   m = 1 \<or> m = 2 \<or> m = 3 \<or> m = 4 \<or> m = 5 \<or> m = 6 \<or> m = 7 \<or> m = 8 \<or> m = 9 \<or> m = 10 \<or> m = 11 \<or> m = (12::int)"
  by arith

lemma div_step:
  fixes y k :: int
  assumes "0 < k"
  shows "y div k - (y - 1) div k = (if y mod k = 0 then 1 else 0)"
proof (cases "y mod k = 0")
  case True
  have "y = k * (y div k) + y mod k" by simp
  with True have "y = k * (y div k)" by simp
  then have e: "y - 1 = k * (y div k - 1) + (k - 1)"
    by (simp add: right_diff_distrib)
  have "(y - 1) div k = y div k - 1"
    by (rule int_div_pos_eq [OF e]) (use assms in simp_all)
  with True show ?thesis by simp
next
  case False
  have "0 \<le> y mod k" "y mod k < k" using assms by simp_all
  with False have r: "0 \<le> y mod k - 1" "y mod k - 1 < k" by linarith+
  have e: "y - 1 = k * (y div k) + (y mod k - 1)" by simp
  have "(y - 1) div k = y div k"
    by (rule int_div_pos_eq [OF e r])
  with False show ?thesis by simp
qed

lemma mod_400_100: "(y::int) mod 400 = 0 \<Longrightarrow> y mod 100 = 0"
  by (metis mod_mod_cancel dvd_triv_left mod_0 numeral_times_numeral semiring_norm(13) semiring_norm(12) semiring_norm(11))

lemma mod_100_4: "(y::int) mod 100 = 0 \<Longrightarrow> y mod 4 = 0"
  by presburger

lemma leap_count:
  assumes "c \<Longrightarrow> b" "b \<Longrightarrow> a"
  shows "365 + (if a then 1 else 0) - (if b then 1 else 0) + (if c then 1 else 0)
           = (if a \<and> (c \<or> \<not> b) then 366 else (365::int))"
  using assms by (cases a; cases b; cases c; simp)

lemma days_before_year_Suc:
  "days_before_year (y + 1) = days_before_year y + (if is_leap y then 366 else 365)"
proof -
  have "days_before_year (y + 1) - days_before_year y =
          365 + (y div 4 - (y - 1) div 4) - (y div 100 - (y - 1) div 100) + (y div 400 - (y - 1) div 400)"
    by (simp add: days_before_year_def Let_def algebra_simps)
  also have "\<dots> = 365 + (if y mod 4 = 0 then 1 else 0) - (if y mod 100 = 0 then 1 else 0)
                     + (if y mod 400 = 0 then 1 else 0)"
    by (simp only: div_step [of 4 y] div_step [of 100 y] div_step [of 400 y])
  also have "\<dots> = (if is_leap y then 366 else 365)"
    unfolding is_leap_def by (rule leap_count) (fact mod_400_100 mod_100_4)+
  finally show ?thesis by simp
qed

lemma days_before_year_mono: "y \<le> y' \<Longrightarrow> days_before_year y \<le> days_before_year y'"
proof (induction y' rule: int_ge_induct)
  case base
  show ?case by simp
next
  case (step i)
  then show ?case by (simp add: days_before_year_Suc)
qed

lemma day_of_year_bounds:
  assumes "1 \<le> m" "m \<le> 12" "1 \<le> d" "d \<le> days_in_month y m"
  shows "1 \<le> days_before_month y m + d"
    and "days_before_month y m + d \<le> (if is_leap y then 366 else 365)"
  using month_cases [OF assms(1,2)] assms(3,4)
  by (auto simp: days_before_month_def days_in_month_def DAYS_BEFORE_MONTH_def DAYS_IN_MONTH_def split: if_splits)

lemma days_before_month_step:
  assumes "1 \<le> m" "m < m'" "m' \<le> 12"
  shows "days_before_month y m + days_in_month y m \<le> days_before_month y m'"
proof -
  have a: "1 \<le> m" "m \<le> 12" "1 \<le> m'" "m' \<le> 12" using assms by auto
  show ?thesis
    using month_cases [OF a(1,2)] month_cases [OF a(3,4)] assms(2)
    by (auto simp: days_before_month_def days_in_month_def DAYS_BEFORE_MONTH_def DAYS_IN_MONTH_def)
qed

lemma toordinal_mono:
  assumes "valid_date a" "valid_date b" "date_le a b"
  shows "toordinal a \<le> toordinal b"
proof -
  consider "year a < year b"
    | "year a = year b" "month a < month b"
    | "year a = year b" "month a = month b" "day a \<le> day b"
    using assms(3) unfolding date_le_iff by blast
  then show ?thesis
  proof cases
    case 1
    have "days_before_month (year a) (month a) + day a \<le> (if is_leap (year a) then 366 else 365)"
      using assms(1) by (intro day_of_year_bounds) (auto simp: valid_date_def)
    then have "toordinal a \<le> days_before_year (year a + 1)"
      by (simp add: toordinal_def days_before_year_Suc)
    also have "\<dots> \<le> days_before_year (year b)"
      using 1 by (intro days_before_year_mono) simp
    also have "\<dots> \<le> toordinal b"
      using day_of_year_bounds(1) [of "month b" "day b" "year b"] assms(2)
      by (simp add: toordinal_def valid_date_def)
    finally show ?thesis .
  next
    case 2
    have "days_before_month (year a) (month a) + days_in_month (year a) (month a)
            \<le> days_before_month (year a) (month b)"
      using assms(1,2) 2 by (intro days_before_month_step) (auto simp: valid_date_def)
    then show ?thesis
      using assms(1,2) 2 by (simp add: toordinal_def valid_date_def)
  next
    case 3
    then show ?thesis by (simp add: toordinal_def)
  qed
qed

lemma days_remaining_nonneg:
  assumes "valid_date today" "end_date self = Some e" "valid_date e"
    and "days_remaining self today = Inr (Some n)"
  shows "0 \<le> n"
proof -
  from assms(2,4) have "\<not> date_gt today e" and n: "n = days_between e today"
    by (auto simp: days_remaining_def split: if_splits)
  then have "date_le today e"
    by (auto simp: date_gt_def date_lt_def date_le_def)
  from toordinal_mono [OF assms(1,3) this] n show ?thesis
    by (simp add: days_between_def)
qed

subsection \<open>AcademicTerm: validation on save\<close>

text \<open>
  Claim C5. When both dates of a term are present and the end date is on or before the
  start date, \<^verbatim>\<open>save\<close> raises the validation error of the field \<^verbatim>\<open>end_date\<close>, and
  the call leaves the object and the table as they were: nothing is written.
\<close>

theorem AcademicTerm_save_rejects_end_not_after_start:
  assumes "start_date self = Some s" and "end_date self = Some e" and "date_le e s"
  shows "AcademicTerm_save self db =
           (Some (ValidationError ''end_date'' ''End date must be after the start date.''), self, db)"
  using assms by (simp add: AcademicTerm_save_def AcademicTerm_clean_def)

text \<open>The theorem at a term that ends on its first day, and at one that ends the day
  before.\<close>

theorem AcademicTerm_save_rejects_end_not_after_start_witness:
  "date_le (mkdate 2025 1 6) (mkdate 2025 1 6) \<and>
   AcademicTerm_save (mkterm (mkdate 2025 1 6) (mkdate 2025 1 6)) [] =
     (Some (ValidationError ''end_date'' ''End date must be after the start date.''),
      mkterm (mkdate 2025 1 6) (mkdate 2025 1 6), []) \<and>
   date_le (mkdate 2025 1 5) (mkdate 2025 1 6) \<and>
   AcademicTerm_save (mkterm (mkdate 2025 1 6) (mkdate 2025 1 5)) [] =
     (Some (ValidationError ''end_date'' ''End date must be after the start date.''),
      mkterm (mkdate 2025 1 6) (mkdate 2025 1 5), [])"
proof -
  have a: "date_le (mkdate 2025 1 6) (mkdate 2025 1 6)"
    and b: "date_le (mkdate 2025 1 5) (mkdate 2025 1 6)"
    by (simp_all add: date_le_def mkdate_def)
  show ?thesis
    using a b
      AcademicTerm_save_rejects_end_not_after_start
        [of "mkterm (mkdate 2025 1 6) (mkdate 2025 1 6)" "mkdate 2025 1 6" "mkdate 2025 1 6" "[]", OF _ _ a]
      AcademicTerm_save_rejects_end_not_after_start
        [of "mkterm (mkdate 2025 1 6) (mkdate 2025 1 5)" "mkdate 2025 1 6" "mkdate 2025 1 5" "[]", OF _ _ b]
    by (simp add: mkterm_def)
qed

text \<open>
  Claim C4. When both dates are present and the end date is after the start date,
  \<^verbatim>\<open>save\<close> raises the validation error of the field \<^verbatim>\<open>end_date\<close> if the term
  lasts fewer than 60 days or more than 120 days, and writes nothing; a term of 60 to
  120 days, both ends included, passes \<^verbatim>\<open>clean\<close> and goes on to be written.
\<close>

theorem AcademicTerm_save_duration_bounds:
  assumes "start_date self = Some s" and "end_date self = Some e" and "date_gt e s"
  shows "(days_between e s < 60 \<longrightarrow>
            AcademicTerm_save self db =
              (Some (ValidationError ''end_date''
                 ''Term duration seems too short (less than 60 days). Please verify dates.''), self, db))
       \<and> (120 < days_between e s \<longrightarrow>
            AcademicTerm_save self db =
              (Some (ValidationError ''end_date''
                 ''Term duration seems too long (more than 120 days). Please verify dates.''), self, db))
       \<and> (60 \<le> days_between e s \<and> days_between e s \<le> 120 \<longrightarrow>
            AcademicTerm_clean self = Inr () \<and>
            AcademicTerm_save self db = AcademicTerm_Model_save self db)"
proof -
  have "\<not> date_le e s" using assms(3) by (rule date_gt_not_le)
  with assms(1,2) show ?thesis
    by (simp add: AcademicTerm_save_def AcademicTerm_clean_def Let_def)
qed

text \<open>Terms of exactly 60 and 120 days pass, terms of 59 and 121 days do not.\<close>

theorem AcademicTerm_save_duration_bounds_witness:
  "days_between (mkdate 2025 3 7) (mkdate 2025 1 6) = 60 \<and>
   AcademicTerm_clean (mkterm (mkdate 2025 1 6) (mkdate 2025 3 7)) = Inr () \<and>
   days_between (mkdate 2025 5 6) (mkdate 2025 1 6) = 120 \<and>
   AcademicTerm_clean (mkterm (mkdate 2025 1 6) (mkdate 2025 5 6)) = Inr () \<and>
   days_between (mkdate 2025 3 6) (mkdate 2025 1 6) = 59 \<and>
   AcademicTerm_save (mkterm (mkdate 2025 1 6) (mkdate 2025 3 6)) [] =
     (Some (ValidationError ''end_date''
        ''Term duration seems too short (less than 60 days). Please verify dates.''),
      mkterm (mkdate 2025 1 6) (mkdate 2025 3 6), []) \<and>
   days_between (mkdate 2025 5 7) (mkdate 2025 1 6) = 121 \<and>
   AcademicTerm_save (mkterm (mkdate 2025 1 6) (mkdate 2025 5 7)) [] =
     (Some (ValidationError ''end_date''
        ''Term duration seems too long (more than 120 days). Please verify dates.''),
      mkterm (mkdate 2025 1 6) (mkdate 2025 5 7), [])"
proof -
  let ?s = "mkdate 2025 1 6"
  have d: "days_between (mkdate 2025 3 7) ?s = 60" "days_between (mkdate 2025 5 6) ?s = 120"
    "days_between (mkdate 2025 3 6) ?s = 59" "days_between (mkdate 2025 5 7) ?s = 121"
    by code_simp+
  have g: "date_gt (mkdate 2025 3 7) ?s" "date_gt (mkdate 2025 5 6) ?s"
    "date_gt (mkdate 2025 3 6) ?s" "date_gt (mkdate 2025 5 7) ?s"
    by (simp_all add: date_gt_def date_lt_def mkdate_def)
  have f: "start_date (mkterm a b) = Some a" "end_date (mkterm a b) = Some b" for a b
    by (simp_all add: mkterm_def)
  show ?thesis
    using d
      AcademicTerm_save_duration_bounds [OF f g(1), of "[]"]
      AcademicTerm_save_duration_bounds [OF f g(2), of "[]"]
      AcademicTerm_save_duration_bounds [OF f g(3), of "[]"]
      AcademicTerm_save_duration_bounds [OF f g(4), of "[]"]
    by simp
qed

subsection \<open>AcademicTerm: status and days remaining\<close>

text \<open>
  Claim C3. \<^verbatim>\<open>days_remaining\<close> returns \<^verbatim>\<open>None\<close> once today is after the end date and
  the end date minus today otherwise. Its docstring promises a negative number for a
  term that has not started; the value computed for such a term is the distance to the
  end date, which is positive: on 2025-01-01 the term from 2025-05-01 to 2025-08-01 is
  upcoming and has 212 days remaining. By \<open>days_remaining_nonneg\<close> no pair of dates
  gives a negative number.
\<close>

theorem days_remaining_before_start_is_positive:
  "get_term_status (mkterm (mkdate 2025 5 1) (mkdate 2025 8 1)) (mkdate 2025 1 1) = Inr ''upcoming'' \<and>
   days_remaining (mkterm (mkdate 2025 5 1) (mkdate 2025 8 1)) (mkdate 2025 1 1) = Inr (Some 212)"
  by code_simp

text \<open>
  Claim C10. \<^verbatim>\<open>days_remaining\<close> returns \<^verbatim>\<open>None\<close> exactly when \<^verbatim>\<open>get_term_status\<close>
  returns \<^verbatim>\<open>"ended"\<close>. This holds for every term whose end date is not before its
  start date, as \<^verbatim>\<open>clean\<close> requires of a saved term. It fails for a term whose dates
  are the other way round: \<^verbatim>\<open>get_term_status\<close> tests the start date first, so between
  the two dates the term is upcoming and has no days remaining.
\<close>

theorem ended_iff_no_days_remaining:
  assumes "start_date self = Some s" and "end_date self = Some e" and "date_le s e"
  shows "days_remaining self today = Inr None \<longleftrightarrow> get_term_status self today = Inr ''ended''"
  using assms date_le_trans_gt [of today s e]
  by (auto simp: days_remaining_def get_term_status_def)

theorem ended_iff_no_days_remaining_witness:
  "date_le (mkdate 2025 5 1) (mkdate 2025 8 1) \<and>
   days_remaining (mkterm (mkdate 2025 5 1) (mkdate 2025 8 1)) (mkdate 2025 9 1) = Inr None \<and>
   get_term_status (mkterm (mkdate 2025 5 1) (mkdate 2025 8 1)) (mkdate 2025 9 1) = Inr ''ended''"
proof -
  have a: "date_le (mkdate 2025 5 1) (mkdate 2025 8 1)"
    by (simp add: date_le_def mkdate_def)
  have s: "get_term_status (mkterm (mkdate 2025 5 1) (mkdate 2025 8 1)) (mkdate 2025 9 1) = Inr ''ended''"
    by code_simp
  show ?thesis
    using a s
      ended_iff_no_days_remaining
        [of "mkterm (mkdate 2025 5 1) (mkdate 2025 8 1)" "mkdate 2025 5 1" "mkdate 2025 8 1" "mkdate 2025 9 1"]
    by (simp add: mkterm_def)
qed

text \<open>The term from 2025-05-01 back to 2025-01-31, seen on 2025-03-01.\<close>

theorem ended_iff_no_days_remaining_counterexample:
  "\<not> (days_remaining (mkterm (mkdate 2025 5 1) (mkdate 2025 1 31)) (mkdate 2025 3 1) = Inr None
        \<longleftrightarrow> get_term_status (mkterm (mkdate 2025 5 1) (mkdate 2025 1 31)) (mkdate 2025 3 1) = Inr ''ended'')"
  by code_simp

subsection \<open>ClassLevel: the order is recomputed on every save\<close>

lemma list_index_nth: "distinct xs \<Longrightarrow> i < length xs \<Longrightarrow> list_index xs (xs ! i) = Some i"
proof (induction xs arbitrary: i)
  case Nil
  then show ?case by simp
next
  case (Cons x xs)
  then show ?case by (cases i) auto
qed

lemma list_index_absent: "x \<notin> set xs \<Longrightarrow> list_index xs x = None"
  by (induction xs) auto

lemma replace_row_mem:
  "list_ex p db \<Longrightarrow> self \<in> set (map (\<lambda>r. if p r then self else r) db)"
  by (induction db) auto

lemma Model_save_written:
  assumes "Model_save get_id set_id same_unique pre_insert self db = (None, self', db')"
  shows "self' \<in> set db'"
proof (cases "get_id self")
  case None
  with assms show ?thesis
    by (auto simp: Model_save_def Let_def split: if_splits)
next
  case (Some k)
  show ?thesis
  proof (cases "list_ex (\<lambda>r. get_id r = Some k) db")
    case True
    with assms Some
    have "self' = self" "db' = map (\<lambda>r. if get_id r = Some k then self else r) db"
      by (auto simp: Model_save_def split: if_splits)
    with replace_row_mem [OF True, of self] show ?thesis
      by (simp only:)
  next
    case False
    with assms Some show ?thesis
      by (auto simp: Model_save_def Let_def split: if_splits)
  qed
qed

lemma Model_save_object:
  assumes "\<And>r. f (pre_insert r) = f r" and "\<And>k r. f (set_id k r) = f r"
  shows "f (fst (snd (Model_save get_id set_id same_unique pre_insert self db))) = f self"
  using assms by (simp add: Model_save_def Let_def split: option.splits)

lemma MODEL_CHOICES_keys:
  "map fst MODEL_CHOICES = [''beginner'', ''pp1'', ''pp2'', ''grade1'', ''grade2'']"
  by (simp add: MODEL_CHOICES_def)

text \<open>
  Claim C6. Whatever the object holds before the call, \<^verbatim>\<open>ClassLevel.save\<close> leaves it
  with \<^verbatim>\<open>class_order\<close> equal to the position of its name among the five keys of
  \<^verbatim>\<open>MODEL_CHOICES\<close> plus one, and with 999 when the name is not one of the keys; when
  the call returns without an exception, that object is a row of the table.
\<close>

theorem ClassLevel_save_class_order:
  assumes "ClassLevel_save self db = (exc, self', db')"
  shows "(\<forall>i<5. ClassLevel_name self = map fst MODEL_CHOICES ! i \<longrightarrow> class_order self' = i + 1)
       \<and> (ClassLevel_name self \<notin> set (map fst MODEL_CHOICES) \<longrightarrow> class_order self' = 999)
       \<and> (exc = None \<longrightarrow> self' \<in> set db')
       \<and> length MODEL_CHOICES = 5"
proof -
  let ?keys = "map fst MODEL_CHOICES"
  let ?pre = "case list_index ?keys (ClassLevel_name self) of
                Some i \<Rightarrow> self\<lparr>class_order := i + 1\<rparr> | None \<Rightarrow> self\<lparr>class_order := 999\<rparr>"
  have run: "ClassLevel_Model_save ?pre db = (exc, self', db')"
    using assms by (simp add: ClassLevel_save_def Let_def)
  have "class_order (fst (snd (ClassLevel_Model_save ?pre db))) = class_order ?pre"
    unfolding ClassLevel_Model_save_def by (rule Model_save_object) simp_all
  with run have order: "class_order self' = class_order ?pre" by simp
  have d: "distinct ?keys" and l: "length ?keys = 5"
    by (simp_all add: MODEL_CHOICES_keys)
  have "class_order self' = i + 1" if "i < 5" "ClassLevel_name self = ?keys ! i" for i
    using that list_index_nth [OF d, of i] l order by simp
  moreover have "class_order self' = 999" if "ClassLevel_name self \<notin> set ?keys"
    using list_index_absent [OF that] order by simp
  moreover have "self' \<in> set db'" if "exc = None"
    using run that unfolding ClassLevel_Model_save_def by (auto dest: Model_save_written)
  ultimately show ?thesis using l by simp
qed

text \<open>\<^verbatim>\<open>pp2\<close> is the third key; \<^verbatim>\<open>nursery\<close> is not a key.\<close>

theorem ClassLevel_save_class_order_witness:
  "ClassLevel_save (mklevel ''pp2'') [] =
     (None, (mklevel ''pp2'')\<lparr>ClassLevel_id := Some 1, class_order := 3\<rparr>,
      [(mklevel ''pp2'')\<lparr>ClassLevel_id := Some 1, class_order := 3\<rparr>]) \<and>
   class_order (fst (snd (ClassLevel_save (mklevel ''pp2'') []))) = 2 + 1 \<and>
   class_order (fst (snd (ClassLevel_save (mklevel ''nursery'') []))) = 999"
proof -
  have n: "ClassLevel_name (mklevel s) = s" for s by (simp add: mklevel_def)
  have k: "2 < (5::nat)" "map fst MODEL_CHOICES ! 2 = ''pp2''"
    "''nursery'' \<notin> set (map fst MODEL_CHOICES)"
    by (simp_all add: MODEL_CHOICES_keys)
  have run: "ClassLevel_save (mklevel ''pp2'') [] =
     (None, (mklevel ''pp2'')\<lparr>ClassLevel_id := Some 1, class_order := 3\<rparr>,
      [(mklevel ''pp2'')\<lparr>ClassLevel_id := Some 1, class_order := 3\<rparr>])"
    by code_simp
  have p: "ClassLevel_save (mklevel ''nursery'') [] =
     (fst (ClassLevel_save (mklevel ''nursery'') []),
      fst (snd (ClassLevel_save (mklevel ''nursery'') [])),
      snd (snd (ClassLevel_save (mklevel ''nursery'') [])))"
    by simp
  from ClassLevel_save_class_order [OF run] k n
  have "class_order ((mklevel ''pp2'')\<lparr>ClassLevel_id := Some 1, class_order := 3\<rparr>) = 2 + 1"
    by metis
  moreover from ClassLevel_save_class_order [OF p] k n
  have "class_order (fst (snd (ClassLevel_save (mklevel ''nursery'') []))) = 999"
    by metis
  ultimately show ?thesis using run by simp
qed

subsection \<open>Learner: age\<close>

text \<open>
  Claim C7. The age as of a reference date is the difference of the years, less one
  exactly when the reference month and day come before the month and day of birth in
  the lexicographic order. A learner born on 2020-06-15 is 4 on 2025-06-01 and 5 on
  2025-06-15.
\<close>

theorem get_age_as_of_date_calendar:
  "get_age_as_of_date self as_of =
     year as_of - year (date_of_birth self)
       - (if month as_of < month (date_of_birth self)
             \<or> (month as_of = month (date_of_birth self) \<and> day as_of < day (date_of_birth self))
          then 1 else 0)
   \<and> get_age_as_of_date (self\<lparr>date_of_birth := mkdate 2020 6 15\<rparr>) (mkdate 2025 6 1) = 4
   \<and> get_age_as_of_date (self\<lparr>date_of_birth := mkdate 2020 6 15\<rparr>) (mkdate 2025 6 15) = 5"
  by (auto simp: get_age_as_of_date_def Let_def mkdate_def)

subsection \<open>Learner: the student identifier\<close>








lemma Learner_Model_save_student_id:
  "student_id (fst (snd (Learner_Model_save today self db))) = student_id self"
  unfolding Learner_Model_save_def by (rule Model_save_object) simp_all

lemma Learner_Model_save_written:
  "Learner_Model_save today self db = (None, self', db') \<Longrightarrow> self' \<in> set db'"
  unfolding Learner_Model_save_def by (rule Model_save_written)



text \<open>Without a class level the code does not reach \<^verbatim>\<open>"STU"\<close>: it raises.\<close>

lemma Learner_save_without_class_level:
  assumes "student_id self = []" and "admission_date self = Some d"
    and "Learner_class_level self = None"
  shows "Learner_save today self db = (Some RelatedObjectDoesNotExist, self, db)"
  using assms
  by (simp add: Learner_save_def student_id_year_def hasattr_admission_date_def
        student_id_class_code_def)

text \<open>
  Claim C8. A learner whose \<^verbatim>\<open>student_id\<close> is not empty keeps it through \<^verbatim>\<open>save\<close>:
  the object has the same identifier after the call, the row that is written is that
  object, and a later save of the record, whatever else has been edited in it, leaves
  the identifier as it is.
\<close>

theorem Learner_save_keeps_student_id:
  assumes "student_id self \<noteq> []" and "Learner_save today self db = (exc, self', db')"
  shows "student_id self' = student_id self
       \<and> (exc = None \<longrightarrow> self' \<in> set db')
       \<and> (\<forall>edited. student_id edited = student_id self' \<longrightarrow>
             student_id (fst (snd (Learner_save today2 edited db2))) = student_id self)"
proof -
  have keep: "student_id (fst (snd (Learner_save t x d))) = student_id x"
    if "student_id x \<noteq> []" for t x d
    using that by (simp add: Learner_save_def Learner_Model_save_student_id)
  from keep [OF assms(1), of today db] assms(2)
  have a: "student_id self' = student_id self" by simp
  have b: "self' \<in> set db'" if "exc = None"
    using assms that by (auto simp: Learner_save_def dest: Learner_Model_save_written)
  have c: "student_id (fst (snd (Learner_save today2 edited db2))) = student_id self"
    if "student_id edited = student_id self'" for edited
    using keep [of edited today2 db2] that a assms(1) by simp
  from a b c show ?thesis by blast
qed

text \<open>A learner entered with the identifier \<^verbatim>\<open>ADM-7\<close> is stored under it.\<close>

theorem Learner_save_keeps_student_id_witness:
  "student_id (mklearner (Some pp1_level) None ''ADM-7'') \<noteq> [] \<and>
   Learner_save (mkdate 2025 3 10) (mklearner (Some pp1_level) None ''ADM-7'') [] =
     (None,
      (mklearner (Some pp1_level) (Some (mkdate 2025 3 10)) ''ADM-7'')\<lparr>Learner_id := Some 1\<rparr>,
      [(mklearner (Some pp1_level) (Some (mkdate 2025 3 10)) ''ADM-7'')\<lparr>Learner_id := Some 1\<rparr>]) \<and>
   student_id ((mklearner (Some pp1_level) (Some (mkdate 2025 3 10)) ''ADM-7'')\<lparr>Learner_id := Some 1\<rparr>)
     = ''ADM-7''"
proof -
  have n: "student_id (mklearner (Some pp1_level) None ''ADM-7'') \<noteq> []"
    by (simp add: mklearner_def)
  have run: "Learner_save (mkdate 2025 3 10) (mklearner (Some pp1_level) None ''ADM-7'') [] =
     (None,
      (mklearner (Some pp1_level) (Some (mkdate 2025 3 10)) ''ADM-7'')\<lparr>Learner_id := Some 1\<rparr>,
      [(mklearner (Some pp1_level) (Some (mkdate 2025 3 10)) ''ADM-7'')\<lparr>Learner_id := Some 1\<rparr>])"
    by code_simp
  from Learner_save_keeps_student_id [OF n run]
  have "student_id ((mklearner (Some pp1_level) (Some (mkdate 2025 3 10)) ''ADM-7'')\<lparr>Learner_id := Some 1\<rparr>)
          = student_id (mklearner (Some pp1_level) None ''ADM-7'')"
    by blast
  then show ?thesis using n run by (simp add: mklearner_def)
qed

text \<open>
  Claim C2. \<^verbatim>\<open>save\<close> builds an absent identifier from the last digits of the
  admission year, the first three characters of the class level's key in upper case
  and the count of identifiers with that prefix plus one, padded to three digits
  (\<open>Learner_save_assigns\<close>): a learner of PP1 with an admission date in 2025, saved
  into an empty table, receives \<^verbatim>\<open>25PP1001\<close>. The current year is meant to stand in
  when there is no admission date. A learner that is new has no admission date: the
  attribute exists and holds \<^verbatim>\<open>None\<close>, because the framework sets the date only when
  it inserts the row. For this learner \<^verbatim>\<open>hasattr\<close> is true, \<^verbatim>\<open>save\<close> raises
  \<^verbatim>\<open>AttributeError\<close> and writes nothing.
\<close>

theorem Learner_save_new_learner_raises:
  "Learner_save (mkdate 2025 3 10) (mklearner (Some pp1_level) None []) [] =
     (Some AttributeError, mklearner (Some pp1_level) None [], []) \<and>
   student_id (fst (snd (Learner_save (mkdate 2025 3 10)
       (mklearner (Some pp1_level) (Some (mkdate 2025 3 10)) []) [])))
     = ''25PP1001''"
  by code_simp



subsection \<open>Learner: fees of a term\<close>

lemma filter_unique_key:
  "distinct (map f xs) \<Longrightarrow> r \<in> set xs \<Longrightarrow> filter (\<lambda>x. f x = f r) xs = [r]"
proof (induction xs)
  case Nil
  then show ?case by simp
next
  case (Cons x xs)
  show ?case
  proof (cases "x = r")
    case True
    with Cons.prems have "f r \<notin> f ` set xs" by simp
    then have "\<forall>x\<in>set xs. f x \<noteq> f r" by (metis imageI)
    then have "filter (\<lambda>x. f x = f r) xs = []"
      by (simp add: filter_empty_conv)
    with True show ?thesis by simp
  next
    case False
    with Cons.prems have "r \<in> set xs" "f x \<noteq> f r" by auto
    with Cons show ?thesis by simp
  qed
qed

lemma fee_rows_unique:
  assumes "unique_together db" and "fees \<in> set db" and "fee_row_matches cid tid fees"
  shows "filter (fee_row_matches cid tid) db = [fees]"
proof -
  let ?key = "\<lambda>r. (ClassTermFees_class_level r, academic_term r)"
  have "fee_row_matches cid tid = (\<lambda>x. ?key x = ?key fees)"
    using assms(3) by (auto simp: fee_row_matches_def fun_eq_iff)
  moreover have "filter (\<lambda>x. ?key x = ?key fees) db = [fees]"
    using assms(1,2) unfolding unique_together_def by (rule filter_unique_key)
  ultimately show ?thesis by simp
qed

lemma get_term_fees_no_row:
  assumes "Learner_class_level self = Some c" and "ClassLevel_id c = Some cid"
    and "AcademicTerm_id t = Some tid"
    and "\<not> list_ex (fee_row_matches cid tid) db"
  shows "get_term_fees db self t = Inr None"
proof -
  from assms(4) have "filter (fee_row_matches cid tid) db = []"
    by (simp add: filter_empty_conv list_ex_iff)
  with assms(1-3) show ?thesis by (simp add: get_term_fees_def objects_get_def)
qed

lemma is_admission_term_dates:
  assumes "admission_date self = Some a" and "start_date t = Some s" and "end_date t = Some e"
  shows "is_admission_term self t = Inr (date_le s a \<and> date_le a e)"
  using assms by (simp add: is_admission_term_def)

text \<open>
  Claim C1. For a learner whose class level is set and stored and a term that is
  stored, \<^verbatim>\<open>get_term_fees\<close> returns \<^verbatim>\<open>None\<close>, neither zero nor an exception, when no
  fee row exists for the class level and the term. When the row exists
  (\<^verbatim>\<open>unique_together\<close> allows one at most) and the admission date of the learner and
  the two dates of the term are present, the result is the row's total plus the
  admission and assessment fees of the class level if the admission date lies between
  the first and the last day of the term, both included, which is what
  \<^verbatim>\<open>is_admission_term\<close> returns, and the row's total alone otherwise.
\<close>

theorem get_term_fees_spec:
  assumes "Learner_class_level self = Some c" and "ClassLevel_id c = Some cid"
    and "AcademicTerm_id t = Some tid"
  shows "(\<not> list_ex (fee_row_matches cid tid) db \<longrightarrow>
            get_term_fees db self t = Inr None \<and> get_term_fees db self t \<noteq> Inr (Some 0))
       \<and> (unique_together db \<and> fees \<in> set db \<and> fee_row_matches cid tid fees \<and>
            admission_date self = Some a \<and> start_date t = Some s \<and> end_date t = Some e \<longrightarrow>
            is_admission_term self t = Inr (date_le s a \<and> date_le a e) \<and>
            get_term_fees db self t =
              Inr (Some (if date_le s a \<and> date_le a e
                         then get_total_fees fees + (admission_fee c + assessment_fee c)
                         else get_total_fees fees)))"
proof (intro conjI impI)
  assume "\<not> list_ex (fee_row_matches cid tid) db"
  with assms show "get_term_fees db self t = Inr None" by (rule get_term_fees_no_row)
  then show "get_term_fees db self t \<noteq> Inr (Some 0)" by simp
next
  assume h: "unique_together db \<and> fees \<in> set db \<and> fee_row_matches cid tid fees \<and>
            admission_date self = Some a \<and> start_date t = Some s \<and> end_date t = Some e"
  then show adm: "is_admission_term self t = Inr (date_le s a \<and> date_le a e)"
    by (simp add: is_admission_term_dates)
  from h have "filter (fee_row_matches cid tid) db = [fees]"
    by (simp add: fee_rows_unique)
  with assms adm show "get_term_fees db self t =
          Inr (Some (if date_le s a \<and> date_le a e
                     then get_total_fees fees + (admission_fee c + assessment_fee c)
                     else get_total_fees fees))"
    by (cases "date_le s a \<and> date_le a e")
       (auto simp: get_term_fees_def objects_get_def Let_def)
qed

text \<open>A learner of PP1 admitted on the first day of term 1: the first term costs the
  schedule and the one-time fees, the second the schedule alone, and a table without a
  row for PP1 gives \<^verbatim>\<open>None\<close>.\<close>

theorem get_term_fees_spec_witness:
  "get_term_fees fees_2025
     (mklearner (Some pp1_level) (Some (mkdate 2025 1 6)) ''25PP1001'') term1_2025
     = Inr (Some 2400000) \<and>
   get_term_fees fees_2025
     (mklearner (Some pp1_level) (Some (mkdate 2025 1 6)) ''25PP1001'') term2_2025
     = Inr (Some 1500000) \<and>
   get_term_fees [mkfees 3 1 1600000 300000 0]
     (mklearner (Some pp1_level) (Some (mkdate 2025 1 6)) ''25PP1001'') term1_2025
     = Inr None"
proof -
  let ?l = "mklearner (Some pp1_level) (Some (mkdate 2025 1 6)) ''25PP1001''"
  have u: "unique_together fees_2025"
    by (simp add: unique_together_def fees_2025_def mkfees_def)
  have m: "mkfees 2 1 1500000 300000 0 \<in> set fees_2025" "mkfees 2 2 1500000 0 0 \<in> set fees_2025"
    by (simp_all add: fees_2025_def)
  have k: "Learner_class_level ?l = Some pp1_level" "ClassLevel_id pp1_level = Some 2"
    "AcademicTerm_id term1_2025 = Some 1" "AcademicTerm_id term2_2025 = Some 2"
    by (simp_all add: mklearner_def pp1_level_def term1_2025_def term2_2025_def)
  have r: "fee_row_matches 2 1 (mkfees 2 1 1500000 300000 0)"
    "fee_row_matches 2 2 (mkfees 2 2 1500000 0 0)"
    "\<not> list_ex (fee_row_matches 2 1) [mkfees 3 1 1600000 300000 0]"
    by (simp_all add: fee_row_matches_def mkfees_def)
  have f: "admission_date ?l = Some (mkdate 2025 1 6)"
    "start_date term1_2025 = Some (mkdate 2025 1 6)" "end_date term1_2025 = Some (mkdate 2025 4 4)"
    "start_date term2_2025 = Some (mkdate 2025 5 5)" "end_date term2_2025 = Some (mkdate 2025 8 1)"
    by (simp_all add: mklearner_def term1_2025_def term2_2025_def mkterm_def)
  have d: "date_le (mkdate 2025 1 6) (mkdate 2025 1 6)" "date_le (mkdate 2025 1 6) (mkdate 2025 4 4)"
    "\<not> date_le (mkdate 2025 5 5) (mkdate 2025 1 6)"
    by (simp_all add: date_le_def mkdate_def)
  have v: "get_total_fees (mkfees 2 1 1500000 300000 0) + (admission_fee pp1_level + assessment_fee pp1_level) = 2400000"
    "get_total_fees (mkfees 2 2 1500000 0 0) = 1500000"
    by (simp_all add: get_total_fees_def mkfees_def pp1_level_def mklevel_def)
  from get_term_fees_spec [OF k(1,2,3), of fees_2025 "mkfees 2 1 1500000 300000 0"
        "mkdate 2025 1 6" "mkdate 2025 1 6" "mkdate 2025 4 4"] u m r f d v
  have a: "get_term_fees fees_2025 ?l term1_2025 = Inr (Some 2400000)" by simp
  from get_term_fees_spec [OF k(1,2,4), of fees_2025 "mkfees 2 2 1500000 0 0"
        "mkdate 2025 1 6" "mkdate 2025 5 5" "mkdate 2025 8 1"] u m r f d v
  have b: "get_term_fees fees_2025 ?l term2_2025 = Inr (Some 1500000)" by simp
  from get_term_fees_spec [OF k(1,2,3), of "[mkfees 3 1 1600000 300000 0]"] r(3)
  have c: "get_term_fees [mkfees 3 1 1600000 300000 0] ?l term1_2025 = Inr None" by blast
  from a b c show ?thesis by simp
qed

text \<open>
  Outside these conditions the call raises, and \<^verbatim>\<open>except ClassTermFees.DoesNotExist\<close>
  does not catch what it raises. With an empty fee table, a learner whose class level
  is not set gives \<^verbatim>\<open>RelatedObjectDoesNotExist\<close> and a term that has not been saved
  gives \<^verbatim>\<open>ValueError\<close>, where the claim as written has \<^verbatim>\<open>None\<close>. With the fee row in
  the table, a learner that has not been inserted, whose admission date is still
  \<^verbatim>\<open>None\<close>, gives \<^verbatim>\<open>TypeError\<close>, where the claim as written has the row's total.
\<close>

theorem get_term_fees_spec_counterexample:
  "get_term_fees [] (mklearner None (Some (mkdate 2025 1 6)) ''ADM-7'') term1_2025
     = Inl RelatedObjectDoesNotExist \<and>
   get_term_fees [] (mklearner (Some pp1_level) (Some (mkdate 2025 1 6)) ''25PP1001'')
       (mkterm (mkdate 2025 1 6) (mkdate 2025 4 4))
     = Inl ValueError \<and>
   get_term_fees fees_2025 (mklearner (Some pp1_level) None ''25PP1001'') term1_2025
     = Inl TypeError"
  by code_simp

end
